theory Spec2Isabelle
  imports Complex_Main "HOL-Library.Log_Nat"
begin

section \<open>Errors\<close>

text \<open>
  Go's \<^verbatim>\<open>error\<close> values.  The sentinels of \<^verbatim>\<open>domain/transacao.go\<close> and
  \<^verbatim>\<open>domain/errors.go\<close> are constructors of their own; an error of the DynamoDB client
  is either the conditional-check failure or some other service failure (throttling,
  network, ...), kept opaque; \<open>UnmarshalTypeError\<close> is the failure of
  \<^verbatim>\<open>attributevalue.UnmarshalMap\<close> on a number that does not fit the Go field; \<^verbatim>\<open>fmt.Errorf\<close> builds \<open>Errorf\<close> (no \<^verbatim>\<open>%w\<close>) or
  \<open>ErrorfW\<close> (the message wraps an error with \<^verbatim>\<open>%w\<close>).  Messages are written in
  ASCII, without the accents of the source, and the text of a wrapped error is not
  repeated in the message that wraps it.
\<close>

datatype error =
    ErrValorNegativo
  | ErrValorZero
  | ErrClienteInvalido
  | ErrLimiteInsuficiente
  | ErrClienteNaoEncontrado
  | ErrTransacaoDuplicada
  | ConditionalCheckFailedException
  | ServiceFailure string
  | UnmarshalTypeError
  | PublishFailure string
  | Errorf string
  | ErrorfW string error

text \<open>\<^verbatim>\<open>errors.Is(err, target)\<close>: \<open>err\<close> or an error it wraps is \<open>target\<close>.\<close>

fun errors_Is :: "error \<Rightarrow> error \<Rightarrow> bool" where
  "errors_Is (ErrorfW m w) target = (ErrorfW m w = target \<or> errors_Is w target)"
| "errors_Is e target = (e = target)"

text \<open>\<^verbatim>\<open>errors.As(err, &condErr)\<close> for \<^verbatim>\<open>*types.ConditionalCheckFailedException\<close>.\<close>

fun errors_As_ConditionalCheckFailed :: "error \<Rightarrow> bool" where
  "errors_As_ConditionalCheckFailed ConditionalCheckFailedException = True"
| "errors_As_ConditionalCheckFailed (ErrorfW m w) = errors_As_ConditionalCheckFailed w"
| "errors_As_ConditionalCheckFailed e = False"

section \<open>float64 amounts\<close>

text \<open>
  \<^verbatim>\<open>Transacao.Valor\<close> is a \<^verbatim>\<open>float64\<close>.  A finite binary64 value is an integer
  significand times a power of two: \<open>F64 m e\<close> stands for \<open>m * 2 ^ e\<close>, with
  \<open>\<bar>m\<bar> < 2 ^ 53\<close> and \<open>- 1074 \<le> e \<le> 971\<close> (\<open>is_float64\<close>).  NaN and the
  infinities are not values of this type: the amount comes from a decoded JSON number,
  which is always finite.
\<close>

datatype float64 = F64 int int

fun is_float64 :: "float64 \<Rightarrow> bool" where
  "is_float64 (F64 m e) = (\<bar>m\<bar> < 2 ^ 53 \<and> - 1074 \<le> e \<and> e \<le> 971)"

fun f64_val :: "float64 \<Rightarrow> rat" where
  "f64_val (F64 m e) = (if 0 \<le> e then of_int m * 2 ^ nat e else of_int m / 2 ^ nat (- e))"

text \<open>The comparisons with the constant \<^verbatim>\<open>0\<close> that \<^verbatim>\<open>Valida\<close> makes.\<close>

fun f64_le0 :: "float64 \<Rightarrow> bool" where
  "f64_le0 (F64 m e) = (m \<le> 0)"

fun f64_lt0 :: "float64 \<Rightarrow> bool" where
  "f64_lt0 (F64 m e) = (m < 0)"

fun f64_eq0 :: "float64 \<Rightarrow> bool" where
  "f64_eq0 (F64 m e) = (m = 0)"

section \<open>Domain: \<^verbatim>\<open>internal/core/domain/transacao.go\<close>\<close>

text \<open>A \<^verbatim>\<open>time.Time\<close> is kept as its Unix time in seconds.\<close>

record Transacao =
  ID :: string
  ClienteID :: string
  Valor :: float64
  Status :: string
  Timestamp :: int
  CorrelationID :: string

record TransacaoEvento =
  Evento :: string
  TransacaoID :: string
  ev_ClienteID :: string
  ev_Valor :: float64
  ev_Timestamp :: int
  ev_CorrelationID :: string

definition StatusAprovada :: string where
  "StatusAprovada = ''APROVADA''"

definition StatusRejeitada :: string where
  "StatusRejeitada = ''REJEITADA''"

definition StatusPendente :: string where
  "StatusPendente = ''PENDENTE''"

definition EventoTransacaoAprovada :: string where
  "EventoTransacaoAprovada = ''TRANSACAO_APROVADA''"

definition EventoTransacaoRejeitada :: string where
  "EventoTransacaoRejeitada = ''TRANSACAO_REJEITADA''"

text \<open>
  \<^verbatim>\<open>NewTransacao\<close>; the fresh UUID and \<^verbatim>\<open>time.Now()\<close> are arguments.
\<close>

definition NewTransacao :: "string \<Rightarrow> int \<Rightarrow> string \<Rightarrow> float64 \<Rightarrow> string \<Rightarrow> Transacao" where
  "NewTransacao uuid time_now clienteID valor correlationID =
     \<lparr>ID = uuid, ClienteID = clienteID, Valor = valor, Status = StatusPendente,
      Timestamp = time_now, CorrelationID = correlationID\<rparr>"

text \<open>
  \<^verbatim>\<open>Valida\<close>, with the nesting of the source: the two amount tests sit inside
  \<^verbatim>\<open>if t.Valor <= 0\<close>, and control falls through to the customer test when none
  of them returns.
\<close>

definition Valida :: "Transacao \<Rightarrow> error option" where
  "Valida t =
     (case (if f64_le0 (Valor t)
            then (if f64_lt0 (Valor t) then Some ErrValorNegativo
                  else if f64_eq0 (Valor t) then Some ErrValorZero
                  else None)
            else None) of
        Some err \<Rightarrow> Some err
      | None \<Rightarrow> if ClienteID t = [] then Some ErrClienteInvalido else None)"

definition Aprovar :: "Transacao \<Rightarrow> Transacao" where
  "Aprovar t = t\<lparr>Status := StatusAprovada\<rparr>"

definition Rejeitar :: "Transacao \<Rightarrow> Transacao" where
  "Rejeitar t = t\<lparr>Status := StatusRejeitada\<rparr>"

definition ToEvento :: "Transacao \<Rightarrow> TransacaoEvento" where
  "ToEvento t =
     (let evento = (if Status t = StatusAprovada then EventoTransacaoAprovada
                    else if Status t = StatusRejeitada then EventoTransacaoRejeitada
                    else ''TRANSACAO_PROCESSADA'')
      in \<lparr>Evento = evento, TransacaoID = ID t, ev_ClienteID = ClienteID t,
          ev_Valor = Valor t, ev_Timestamp = Timestamp t,
          ev_CorrelationID = CorrelationID t\<rparr>)"

section \<open>float64 arithmetic of \<^verbatim>\<open>processarLimite\<close>\<close>

text \<open>
  \<^verbatim>\<open>transacao.Valor * 100\<close> is a binary64 multiplication: the exact product, rounded to
  the nearest value with a 53-bit significand (ties to even), on the grid of
  \<open>2 ^ - 1074\<close> for subnormal results.  \<open>round_half_even M s\<close> is \<open>M / 2 ^ s\<close>
  rounded that way.  A product beyond the largest finite value is \<^verbatim>\<open>+Inf\<close> in Go; here
  the exponent is unbounded above, and \<open>go_int\<close> sends both to the same integer.
\<close>

definition round_half_even :: "int \<Rightarrow> nat \<Rightarrow> int" where
  "round_half_even M s =
     (let q = M div 2 ^ s; r = M mod 2 ^ s; half = 2 ^ (s - 1)
      in if s = 0 then M
         else if half < r \<or> (r = half \<and> odd q) then q + 1
         else q)"

definition f64_round :: "int \<Rightarrow> int \<Rightarrow> float64" where
  "f64_round M E =
     (let shift = max (bitlen \<bar>M\<bar> - 53) (- 1074 - E)
      in if shift \<le> 0 then F64 M E
         else F64 (round_half_even M (nat shift)) (E + shift))"

fun f64_mul :: "float64 \<Rightarrow> float64 \<Rightarrow> float64" where
  "f64_mul (F64 m1 e1) (F64 m2 e2) = f64_round (m1 * m2) (e1 + e2)"

text \<open>
  \<^verbatim>\<open>int(x)\<close> for a \<^verbatim>\<open>float64\<close> \<open>x\<close> drops the fraction (truncation towards zero).
  When the result does not fit \<^verbatim>\<open>int\<close> (64 bits) Go leaves it to the implementation;
  the model gives what amd64 gives, \<open>- 2 ^ 63\<close>.
\<close>

fun f64_trunc :: "float64 \<Rightarrow> int" where
  "f64_trunc (F64 m e) =
     (if 0 \<le> e then m * 2 ^ nat e else sgn m * (\<bar>m\<bar> div 2 ^ nat (- e)))"

definition go_int :: "float64 \<Rightarrow> int" where
  "go_int x =
     (let n = f64_trunc x
      in if - (2 ^ 63) \<le> n \<and> n < 2 ^ 63 then n else - (2 ^ 63))"

section \<open>The DynamoDB tables\<close>

text \<open>
  The two tables are maps from the key attribute \<^verbatim>\<open>id\<close> to the item.  Items have
  the attributes of \<^verbatim>\<open>ClienteItem\<close> and \<^verbatim>\<open>TransacaoItem\<close>; the numbers of DynamoDB are
  unbounded integers, and the strings that render an instant are kept as the instant.
  Writing an item never fails; reading a customer item into the Go struct fails when
  one of its two numbers does not fit \<^verbatim>\<open>int\<close> (64 bits), see \<open>UnmarshalMap_cliente\<close>.
\<close>

record ClienteItem =
  item_ID :: string
  Nome :: string
  Email :: string
  LimiteCredit :: int
  LimiteAtual :: int
  CreatedAt :: int
  UpdatedAt :: int

record Cliente =
  cl_ID :: string
  cl_Nome :: string
  cl_Email :: string
  cl_LimiteCredit :: int
  cl_LimiteAtual :: int
  cl_CreatedAt :: int
  cl_UpdatedAt :: int

record TransacaoItem =
  ti_ID :: string
  ti_ClienteID :: string
  ti_Valor :: float64
  ti_Status :: string
  ti_Timestamp :: int
  ti_CorrelationID :: string
  TTL :: int

type_synonym clientes_table = "string \<rightharpoonup> ClienteItem"

type_synonym transacoes_table = "string \<rightharpoonup> TransacaoItem"

text \<open>
  What the code cannot decide is an input of the model: the clock
  (\<^verbatim>\<open>System.currentTimeMillis\<close>); whether a call of the DynamoDB client fails for a
  reason other than its condition (\<open>Some msg\<close>: the call returns that service error
  and writes nothing); the table as the follow-up read of \<^verbatim>\<open>DebitarLimiteAtomica\<close>
  finds it, after the writes of concurrent requests (\<open>reread\<close>, the identity when
  there are none); and what the two methods of the \<^verbatim>\<open>EventPublisher\<close> return.
\<close>

record env =
  currentTimeMillis :: int
  UpdateItem_fault :: "string option"
  GetItem_fault :: "string option"
  PutItem_fault :: "string option"
  reread :: "clientes_table \<Rightarrow> clientes_table"
  PublishTransacaoAprovada :: "TransacaoEvento \<Rightarrow> error option"
  PublishTransacaoRejeitada :: "TransacaoEvento \<Rightarrow> error option"

text \<open>
  \<^verbatim>\<open>GetItem\<close> with \<^verbatim>\<open>ConsistentRead\<close>, and the three conditional writes the
  repositories issue, each with the condition and the update of its source text:
  \<^item> \<^verbatim>\<open>SET limite_atual = limite_atual - :valor, updated_at = :now\<close> under
    \<^verbatim>\<open>attribute_exists(id) AND limite_atual >= :valor AND (limite_atual - :valor) >= :zero\<close>;
  \<^item> \<^verbatim>\<open>SET limite_atual = :novo_limite, updated_at = :now\<close> under
    \<^verbatim>\<open>attribute_exists(id)\<close>;
  \<^item> \<^verbatim>\<open>PutItem\<close> under \<^verbatim>\<open>attribute_not_exists(id)\<close>.
  A write whose condition is false returns \<^verbatim>\<open>ConditionalCheckFailedException\<close> and
  leaves the table as it was.
\<close>

definition GetItem :: "env \<Rightarrow> clientes_table \<Rightarrow> string \<Rightarrow> error + ClienteItem option" where
  "GetItem e tbl key =
     (case GetItem_fault e of
        Some msg \<Rightarrow> Inl (ServiceFailure msg)
      | None \<Rightarrow> Inr (tbl key))"

definition UpdateItem_debitar ::
  "env \<Rightarrow> clientes_table \<Rightarrow> string \<Rightarrow> int \<Rightarrow> error + clientes_table" where
  "UpdateItem_debitar e tbl key valor =
     (case UpdateItem_fault e of
        Some msg \<Rightarrow> Inl (ServiceFailure msg)
      | None \<Rightarrow>
          (case tbl key of
             None \<Rightarrow> Inl ConditionalCheckFailedException
           | Some item \<Rightarrow>
               if valor \<le> LimiteAtual item \<and> 0 \<le> LimiteAtual item - valor
               then Inr (tbl(key \<mapsto> item\<lparr>LimiteAtual := LimiteAtual item - valor,
                                          UpdatedAt := currentTimeMillis e\<rparr>))
               else Inl ConditionalCheckFailedException))"

definition UpdateItem_limite ::
  "env \<Rightarrow> clientes_table \<Rightarrow> string \<Rightarrow> int \<Rightarrow> error + clientes_table" where
  "UpdateItem_limite e tbl key novoLimite =
     (case UpdateItem_fault e of
        Some msg \<Rightarrow> Inl (ServiceFailure msg)
      | None \<Rightarrow>
          (case tbl key of
             None \<Rightarrow> Inl ConditionalCheckFailedException
           | Some item \<Rightarrow>
               Inr (tbl(key \<mapsto> item\<lparr>LimiteAtual := novoLimite,
                                      UpdatedAt := currentTimeMillis e\<rparr>))))"

definition PutItem_transacao ::
  "env \<Rightarrow> transacoes_table \<Rightarrow> TransacaoItem \<Rightarrow> error + transacoes_table" where
  "PutItem_transacao e tbl item =
     (case PutItem_fault e of
        Some msg \<Rightarrow> Inl (ServiceFailure msg)
      | None \<Rightarrow>
          (case tbl (ti_ID item) of
             Some old \<Rightarrow> Inl ConditionalCheckFailedException
           | None \<Rightarrow> Inr (tbl(ti_ID item \<mapsto> item))))"

section \<open>Repositories: \<^verbatim>\<open>internal/repository/dynamodb/limite_repository.go\<close>\<close>

text \<open>
  \<^verbatim>\<open>itemToCliente\<close> copies five fields and leaves \<^verbatim>\<open>CreatedAt\<close> and \<^verbatim>\<open>UpdatedAt\<close> at
  the zero \<^verbatim>\<open>time.Time\<close> (1 January of year 1), whose Unix time is \<open>- 62135596800\<close>.
\<close>

definition zero_time :: int where
  "zero_time = - 62135596800"

definition itemToCliente :: "ClienteItem \<Rightarrow> Cliente" where
  "itemToCliente item =
     \<lparr>cl_ID = item_ID item, cl_Nome = Nome item, cl_Email = Email item,
      cl_LimiteCredit = LimiteCredit item, cl_LimiteAtual = LimiteAtual item,
      cl_CreatedAt = zero_time, cl_UpdatedAt = zero_time\<rparr>"

text \<open>
  \<^verbatim>\<open>attributevalue.UnmarshalMap(result.Item, &item)\<close> for a customer item: the fields
  \<^verbatim>\<open>LimiteCredit\<close> and \<^verbatim>\<open>LimiteAtual\<close> are Go \<^verbatim>\<open>int\<close>s, so a stored number outside
  64 bits is an error.
\<close>

definition fits_go_int :: "int \<Rightarrow> bool" where
  "fits_go_int n = (- (2 ^ 63) \<le> n \<and> n < 2 ^ 63)"

definition UnmarshalMap_cliente :: "ClienteItem \<Rightarrow> error + ClienteItem" where
  "UnmarshalMap_cliente av =
     (if fits_go_int (LimiteCredit av) \<and> fits_go_int (LimiteAtual av) then Inr av
      else Inl UnmarshalTypeError)"

definition GetCliente :: "env \<Rightarrow> clientes_table \<Rightarrow> string \<Rightarrow> error + Cliente" where
  "GetCliente e tbl clienteID =
     (case GetItem e tbl clienteID of
        Inl err \<Rightarrow> Inl (ErrorfW (''erro ao buscar cliente '' @ clienteID) err)
      | Inr None \<Rightarrow> Inl ErrClienteNaoEncontrado
      | Inr (Some av) \<Rightarrow>
          (case UnmarshalMap_cliente av of
             Inl err \<Rightarrow> Inl (ErrorfW ''erro ao deserializar cliente'' err)
           | Inr item \<Rightarrow> Inr (itemToCliente item)))"

text \<open>
  The repository methods return the error (\<open>None\<close> for \<^verbatim>\<open>nil\<close>) and the table with
  the writes of this call.
\<close>

definition UpdateLimite ::
  "env \<Rightarrow> clientes_table \<Rightarrow> string \<Rightarrow> int \<Rightarrow> error option \<times> clientes_table" where
  "UpdateLimite e tbl clienteID novoLimite =
     (case UpdateItem_limite e tbl clienteID novoLimite of
        Inr tbl' \<Rightarrow> (None, tbl')
      | Inl err \<Rightarrow>
          if errors_As_ConditionalCheckFailed err then (Some ErrClienteNaoEncontrado, tbl)
          else (Some (ErrorfW (''erro ao atualizar limite do cliente '' @ clienteID) err), tbl))"

definition DebitarLimiteAtomica ::
  "env \<Rightarrow> clientes_table \<Rightarrow> string \<Rightarrow> int \<Rightarrow> error option \<times> clientes_table" where
  "DebitarLimiteAtomica e tbl clienteID valor =
     (case UpdateItem_debitar e tbl clienteID valor of
        Inr tbl' \<Rightarrow> (None, tbl')
      | Inl err \<Rightarrow>
          if errors_As_ConditionalCheckFailed err then
            (case GetCliente e (reread e tbl) clienteID of
               Inl getErr \<Rightarrow>
                 if errors_Is getErr ErrClienteNaoEncontrado
                 then (Some ErrClienteNaoEncontrado, tbl)
                 else (Some ErrLimiteInsuficiente, tbl)
             | Inr cliente \<Rightarrow>
                 if cl_LimiteAtual cliente < valor then (Some ErrLimiteInsuficiente, tbl)
                 else (Some (ErrorfW (''operacao atomica falhou para cliente '' @ clienteID) err),
                       tbl))
          else (Some (ErrorfW (''erro ao debitar limite do cliente '' @ clienteID) err), tbl))"

definition Save ::
  "env \<Rightarrow> transacoes_table \<Rightarrow> Transacao \<Rightarrow> error option \<times> transacoes_table" where
  "Save e tbl transacao =
     (let ttl = Timestamp transacao + 90 * 24 * 60 * 60;
          item = \<lparr>ti_ID = ID transacao, ti_ClienteID = ClienteID transacao,
                  ti_Valor = Valor transacao, ti_Status = Status transacao,
                  ti_Timestamp = Timestamp transacao,
                  ti_CorrelationID = CorrelationID transacao, TTL = ttl\<rparr>
      in case PutItem_transacao e tbl item of
           Inr tbl' \<Rightarrow> (None, tbl')
         | Inl err \<Rightarrow>
             if errors_As_ConditionalCheckFailed err
             then (Some (Errorf (''transacao '' @ ID transacao @ '' ja existe'')), tbl)
             else (Some (ErrorfW ''erro ao salvar transacao'' err), tbl))"

section \<open>Orchestrator: \<^verbatim>\<open>internal/core/service/transacao_service.go\<close>\<close>

text \<open>
  The state the service works on: the two tables, and the calls it makes on the
  metrics collector and on the event publisher, in order.  The logger and the tracer
  return nothing the code reads and are left out, as is the latency metric (a duration
  of the wall clock).
\<close>

datatype obs =
    IncrementErrorCounter string
  | IncrementTransactionCounter string
  | RecordBusinessMetric string float64 "(string \<times> string) list"
  | CallPublishTransacaoAprovada TransacaoEvento
  | CallPublishTransacaoRejeitada TransacaoEvento

record world =
  clientes :: clientes_table
  transacoes :: transacoes_table
  observed :: "obs list"

definition observe :: "obs \<Rightarrow> world \<Rightarrow> world" where
  "observe x w = w\<lparr>observed := observed w @ [x]\<rparr>"

definition validarTransacao :: "world \<Rightarrow> Transacao \<Rightarrow> error option \<times> world" where
  "validarTransacao w transacao =
     (case Valida transacao of
        Some err \<Rightarrow> (Some err, observe (IncrementErrorCounter ''validation_error'') w)
      | None \<Rightarrow> (None, w))"

text \<open>The local \<^verbatim>\<open>valorCentavos := int(transacao.Valor * 100)\<close> of \<^verbatim>\<open>processarLimite\<close>.\<close>

definition valorCentavos :: "Transacao \<Rightarrow> int" where
  "valorCentavos transacao = go_int (f64_mul (Valor transacao) (F64 100 0))"

definition processarLimite :: "env \<Rightarrow> world \<Rightarrow> Transacao \<Rightarrow> error option \<times> world" where
  "processarLimite e w transacao =
     (case DebitarLimiteAtomica e (clientes w) (ClienteID transacao) (valorCentavos transacao) of
        (Some err, tbl) \<Rightarrow>
          if errors_Is err ErrLimiteInsuficiente
          then (Some err, observe (IncrementErrorCounter ''insufficient_limit'')
                            (w\<lparr>clientes := tbl\<rparr>))
          else (Some err, observe (IncrementErrorCounter ''limit_operation_error'')
                            (w\<lparr>clientes := tbl\<rparr>))
      | (None, tbl) \<Rightarrow> (None, w\<lparr>clientes := tbl\<rparr>))"

text \<open>
  The two publications run in goroutines of their own (\<^verbatim>\<open>go s.publicarEvento(...)\<close>) and
  return nothing.  The model runs each where it is started; its calls enter
  \<open>observed\<close> there, and nothing else of the state is touched by it.
\<close>

definition publicarEvento :: "env \<Rightarrow> world \<Rightarrow> Transacao \<Rightarrow> world" where
  "publicarEvento e w transacao =
     (let evento = ToEvento transacao;
          w1 = observe (CallPublishTransacaoAprovada evento) w
      in case PublishTransacaoAprovada e evento of
           Some err \<Rightarrow> observe (IncrementErrorCounter ''event_publish_error'') w1
         | None \<Rightarrow> w1)"

definition publicarEventoRejeicao :: "env \<Rightarrow> world \<Rightarrow> Transacao \<Rightarrow> error \<Rightarrow> world" where
  "publicarEventoRejeicao e w transacao motivo =
     (let evento = ToEvento transacao;
          w1 = observe (CallPublishTransacaoRejeitada evento) w
      in case PublishTransacaoRejeitada e evento of
           Some err \<Rightarrow> observe (IncrementErrorCounter ''event_publish_error'') w1
         | None \<Rightarrow> w1)"

text \<open>
  The service methods take the transaction by pointer and set its status; the model
  returns the error, the transaction as the call leaves it, and the state.
\<close>

definition aprovarTransacao ::
  "env \<Rightarrow> world \<Rightarrow> Transacao \<Rightarrow> error option \<times> Transacao \<times> world" where
  "aprovarTransacao e w transacao =
     (let t1 = Aprovar transacao
      in case Save e (transacoes w) t1 of
           (Some err, tbl) \<Rightarrow>
             (Some err, t1, observe (IncrementErrorCounter ''transaction_save_error'') w)
         | (None, tbl) \<Rightarrow>
             (let w1 = publicarEvento e (w\<lparr>transacoes := tbl\<rparr>) t1;
                  w2 = observe (IncrementTransactionCounter StatusAprovada) w1;
                  w3 = observe (RecordBusinessMetric ''transaction_value'' (Valor t1)
                                  [(''status'', StatusAprovada), (''cliente_id'', ClienteID t1)]) w2
              in (None, t1, w3)))"

definition rejeitarTransacao ::
  "env \<Rightarrow> world \<Rightarrow> Transacao \<Rightarrow> error \<Rightarrow> error option \<times> Transacao \<times> world" where
  "rejeitarTransacao e w transacao motivo =
     (let t1 = Rejeitar transacao;
          w1 = (case Save e (transacoes w) t1 of
                  (Some err, tbl) \<Rightarrow> w
                | (None, tbl) \<Rightarrow> w\<lparr>transacoes := tbl\<rparr>);
          w2 = publicarEventoRejeicao e w1 t1 motivo;
          w3 = observe (IncrementTransactionCounter StatusRejeitada) w2
      in (Some motivo, t1, w3))"

definition AutorizarTransacao ::
  "env \<Rightarrow> world \<Rightarrow> Transacao \<Rightarrow> error option \<times> Transacao \<times> world" where
  "AutorizarTransacao e w transacao =
     (case validarTransacao w transacao of
        (Some err, w1) \<Rightarrow> rejeitarTransacao e w1 transacao err
      | (None, w1) \<Rightarrow>
          (case processarLimite e w1 transacao of
             (Some err, w2) \<Rightarrow> rejeitarTransacao e w2 transacao err
           | (None, w2) \<Rightarrow> aprovarTransacao e w2 transacao))"

text \<open>\<^verbatim>\<open>categorizeError\<close> of the HTTP handler: status code and error code.\<close>

definition categorizeError :: "error \<Rightarrow> nat \<times> string" where
  "categorizeError err =
     (if err = ErrLimiteInsuficiente then (422, ''insufficient_limit'')
      else if err = ErrClienteNaoEncontrado then (404, ''client_not_found'')
      else if err = ErrValorNegativo \<or> err = ErrValorZero then (400, ''invalid_amount'')
      else if err = ErrClienteInvalido then (400, ''invalid_client'')
      else (500, ''internal_error''))"

section \<open>The invariant of the customer record, and inputs for the examples\<close>

text \<open>
  The invariant the specification asks of a customer record:
  \<open>0 \<le> available_balance \<le> credit_ceiling\<close>, on \<^verbatim>\<open>limite_atual\<close> and
  \<^verbatim>\<open>limite_credito\<close>.
\<close>

definition limite_dentro_do_teto :: "ClienteItem \<Rightarrow> bool" where
  "limite_dentro_do_teto item = (0 \<le> LimiteAtual item \<and> LimiteAtual item \<le> LimiteCredit item)"

text \<open>
  A store that answers every call, with no concurrent request and a publisher that
  accepts every event (the \<^verbatim>\<open>SimpleEventPublisher\<close> of \<^verbatim>\<open>cmd/authorizer/main.go\<close>).
\<close>

definition env_ok :: env where
  "env_ok =
     \<lparr>currentTimeMillis = 1700000000000, UpdateItem_fault = None, GetItem_fault = None,
      PutItem_fault = None, reread = (\<lambda>tbl. tbl),
      PublishTransacaoAprovada = (\<lambda>ev. None), PublishTransacaoRejeitada = (\<lambda>ev. None)\<rparr>"

text \<open>Customer \<^verbatim>\<open>C1\<close> with ceiling 10000 and the balance given, in centavos.\<close>

definition cliente_C1 :: "int \<Rightarrow> ClienteItem" where
  "cliente_C1 saldo =
     \<lparr>item_ID = ''C1'', Nome = ''Ana'', Email = ''ana@example.com'', LimiteCredit = 10000,
      LimiteAtual = saldo, CreatedAt = 1600000000000, UpdatedAt = 1600000000000\<rparr>"

definition world_C1 :: "int \<Rightarrow> world" where
  "world_C1 saldo =
     \<lparr>clientes = [''C1'' \<mapsto> cliente_C1 saldo], transacoes = Map.empty, observed = []\<rparr>"

text \<open>
  The binary64 values nearest to 99.90 and to 0.29, as the JSON decoder gives them:
  \<open>7029837543348634 / 2 ^ 46\<close> and \<open>5224175567749775 / 2 ^ 54\<close>.
\<close>

definition valor_99_90 :: float64 where
  "valor_99_90 = F64 7029837543348634 (- 46)"

definition valor_0_29 :: float64 where
  "valor_0_29 = F64 5224175567749775 (- 54)"

definition transacao_C1 :: "float64 \<Rightarrow> Transacao" where
  "transacao_C1 valor = NewTransacao ''tx-1'' 1700000000 ''C1'' valor ''corr-1''"

text \<open>
  The store of the customers out of service; a concurrent request that restores the
  balance of \<^verbatim>\<open>C1\<close> to 10000 between the rejected write and the follow-up read; and a
  log that already holds transaction \<^verbatim>\<open>tx-1\<close>.
\<close>

definition env_store_down :: env where
  "env_store_down = env_ok\<lparr>UpdateItem_fault := Some ''ServiceUnavailable''\<rparr>"

definition env_race :: env where
  "env_race = env_ok\<lparr>reread := (\<lambda>tbl. tbl(''C1'' \<mapsto> cliente_C1 10000))\<rparr>"

text \<open>
  A concurrent request that leaves \<^verbatim>\<open>C1\<close> with a balance beyond 64 bits before the
  follow-up read.
\<close>

definition env_undecodable :: env where
  "env_undecodable = env_ok\<lparr>reread := (\<lambda>tbl. tbl(''C1'' \<mapsto> cliente_C1 (10000 + 2 ^ 63)))\<rparr>"

definition world_C1_replay :: "int \<Rightarrow> world" where
  "world_C1_replay saldo =
     (world_C1 saldo)\<lparr>transacoes :=
        [''tx-1'' \<mapsto> \<lparr>ti_ID = ''tx-1'', ti_ClienteID = ''C1'', ti_Valor = valor_99_90,
                         ti_Status = StatusAprovada, ti_Timestamp = 1700000000,
                         ti_CorrelationID = ''corr-1'', TTL = 1707776000\<rparr>]\<rparr>"

section \<open>Validation\<close>

lemma f64_lt0_le0: "f64_lt0 v \<Longrightarrow> f64_le0 v"
  by (cases v) auto

lemma f64_eq0_le0: "f64_eq0 v \<Longrightarrow> f64_le0 v"
  by (cases v) auto

lemma f64_lt0_val: "f64_lt0 v = (f64_val v < 0)"
  by (cases v) (auto simp: divide_less_0_iff mult_less_0_iff)

lemma f64_eq0_val: "f64_eq0 v = (f64_val v = 0)"
  by (cases v) auto

text \<open>
  Claim C7.  \<^verbatim>\<open>Valida\<close> returns \<^verbatim>\<open>ErrValorNegativo\<close> when the amount is negative,
  \<^verbatim>\<open>ErrValorZero\<close> when it is zero, \<^verbatim>\<open>ErrClienteInvalido\<close> when the amount is
  positive and the customer id is empty, and \<^verbatim>\<open>nil\<close> otherwise; the amount tests
  come first.  It is a function of the transaction alone, so it has no side effect.
  Negative, zero and positive are read on the value of the amount (\<open>f64_val\<close>).
\<close>

theorem Valida_checks_in_order:
  "Valida t =
     (if f64_val (Valor t) < 0 then Some ErrValorNegativo
      else if f64_val (Valor t) = 0 then Some ErrValorZero
      else if ClienteID t = [] then Some ErrClienteInvalido
      else None)"
  using f64_lt0_le0 [of "Valor t"] f64_eq0_le0 [of "Valor t"]
  by (auto simp: Valida_def f64_lt0_val [symmetric] f64_eq0_val [symmetric])

text \<open>
  Claim C10.  For a transaction whose status is neither \<^verbatim>\<open>APROVADA\<close> nor
  \<^verbatim>\<open>REJEITADA\<close>, \<^verbatim>\<open>ToEvento\<close> builds an event of the fallback type
  \<^verbatim>\<open>TRANSACAO_PROCESSADA\<close>, which is neither of the two declared event types, and
  copies the id, customer id, amount, timestamp and correlation id.
\<close>

theorem ToEvento_fallback:
  assumes "Status t \<noteq> StatusAprovada" and "Status t \<noteq> StatusRejeitada"
  shows "ToEvento t =
           \<lparr>Evento = ''TRANSACAO_PROCESSADA'', TransacaoID = ID t,
            ev_ClienteID = ClienteID t, ev_Valor = Valor t,
            ev_Timestamp = Timestamp t, ev_CorrelationID = CorrelationID t\<rparr>
         \<and> Evento (ToEvento t) \<noteq> EventoTransacaoAprovada
         \<and> Evento (ToEvento t) \<noteq> EventoTransacaoRejeitada"
  using assms
  by (simp add: ToEvento_def EventoTransacaoAprovada_def EventoTransacaoRejeitada_def)

theorem ToEvento_fallback_witness:
  "Status (NewTransacao ''id-1'' 1700000000 ''12345'' (F64 7029837543348634 (- 46)) ''corr'')
     \<noteq> StatusAprovada
   \<and> Status (NewTransacao ''id-1'' 1700000000 ''12345'' (F64 7029837543348634 (- 46)) ''corr'')
     \<noteq> StatusRejeitada
   \<and> ToEvento (NewTransacao ''id-1'' 1700000000 ''12345'' (F64 7029837543348634 (- 46)) ''corr'')
     = \<lparr>Evento = ''TRANSACAO_PROCESSADA'', TransacaoID = ''id-1'',
        ev_ClienteID = ''12345'', ev_Valor = F64 7029837543348634 (- 46),
        ev_Timestamp = 1700000000, ev_CorrelationID = ''corr''\<rparr>"
proof -
  let ?t = "NewTransacao ''id-1'' 1700000000 ''12345'' (F64 7029837543348634 (- 46)) ''corr''"
  have a: "Status ?t \<noteq> StatusAprovada"
    by (simp add: NewTransacao_def StatusPendente_def StatusAprovada_def)
  have b: "Status ?t \<noteq> StatusRejeitada"
    by (simp add: NewTransacao_def StatusPendente_def StatusRejeitada_def)
  from ToEvento_fallback [OF a b] a b show ?thesis
    by (simp add: NewTransacao_def)
qed

section \<open>The Ledger Store\<close>

lemma Debitar_error_forms:
  "fst (DebitarLimiteAtomica e tbl cid v) = Some err \<Longrightarrow>
     err = ErrClienteNaoEncontrado \<or> err = ErrLimiteInsuficiente
     \<or> (UpdateItem_fault e = None \<and> err = ErrorfW (''operacao atomica falhou para cliente '' @ cid) ConditionalCheckFailedException)
     \<or> (\<exists>msg. UpdateItem_fault e = Some msg \<and> err = ErrorfW (''erro ao debitar limite do cliente '' @ cid) (ServiceFailure msg))"
  by (auto simp: DebitarLimiteAtomica_def UpdateItem_debitar_def split: option.splits sum.splits if_splits)

lemma Debitar_failure_keeps_table:
  "fst (DebitarLimiteAtomica e tbl cid v) = Some err \<Longrightarrow> snd (DebitarLimiteAtomica e tbl cid v) = tbl"
  by (auto simp: DebitarLimiteAtomica_def split: option.splits sum.splits if_splits)

text \<open>
  Claim C1.  When the store answers the conditional write, \<^verbatim>\<open>DebitarLimiteAtomica\<close>
  succeeds if and only if a record for the customer exists and its \<^verbatim>\<open>limite_atual\<close> is at
  least the amount; on success the table is the old one with that record's
  \<^verbatim>\<open>limite_atual\<close> lowered by exactly the amount (and \<^verbatim>\<open>updated_at\<close> set); and whenever
  the call fails, the table is as it was.
\<close>

theorem DebitarLimiteAtomica_succeeds_iff:
  assumes "UpdateItem_fault e = None"
  shows "(fst (DebitarLimiteAtomica e tbl cid v) = None
            \<longleftrightarrow> (\<exists>item. tbl cid = Some item \<and> v \<le> LimiteAtual item))
       \<and> (\<forall>item. tbl cid = Some item \<and> v \<le> LimiteAtual item \<longrightarrow>
             snd (DebitarLimiteAtomica e tbl cid v) =
               tbl(cid \<mapsto> item\<lparr>LimiteAtual := LimiteAtual item - v,
                                    UpdatedAt := currentTimeMillis e\<rparr>))
       \<and> (fst (DebitarLimiteAtomica e tbl cid v) \<noteq> None \<longrightarrow>
             snd (DebitarLimiteAtomica e tbl cid v) = tbl)"
  using assms
  by (auto simp: DebitarLimiteAtomica_def UpdateItem_debitar_def GetCliente_def GetItem_def
           split: option.splits sum.splits if_splits)

theorem DebitarLimiteAtomica_succeeds_iff_witness:
  "UpdateItem_fault env_ok = None
   \<and> fst (DebitarLimiteAtomica env_ok [''C1'' \<mapsto> cliente_C1 10000] ''C1'' 9990) = None
   \<and> snd (DebitarLimiteAtomica env_ok [''C1'' \<mapsto> cliente_C1 10000] ''C1'' 9990)
       = [''C1'' \<mapsto> (cliente_C1 10000)\<lparr>LimiteAtual := 10, UpdatedAt := 1700000000000\<rparr>]
   \<and> fst (DebitarLimiteAtomica env_ok [''C1'' \<mapsto> cliente_C1 10] ''C1'' 9990) \<noteq> None
   \<and> snd (DebitarLimiteAtomica env_ok [''C1'' \<mapsto> cliente_C1 10] ''C1'' 9990)
       = [''C1'' \<mapsto> cliente_C1 10]"
proof -
  have h: "UpdateItem_fault env_ok = None"
    by (simp add: env_ok_def)
  note a = DebitarLimiteAtomica_succeeds_iff [OF h, of "[''C1'' \<mapsto> cliente_C1 10000]" "''C1''" 9990]
  note b = DebitarLimiteAtomica_succeeds_iff [OF h, of "[''C1'' \<mapsto> cliente_C1 10]" "''C1''" 9990]
  have c: "currentTimeMillis env_ok = 1700000000000"
    by (simp add: env_ok_def)
  show ?thesis
    using h a b c by (simp add: cliente_C1_def)
qed

text \<open>
  Claim C4, as the code has it.  When the conditional write is rejected, the follow-up
  read decides the error: \<^verbatim>\<open>ErrClienteNaoEncontrado\<close> for an absent record,
  \<^verbatim>\<open>ErrLimiteInsuficiente\<close> for a record whose \<^verbatim>\<open>limite_atual\<close> is below the amount, and
  also when the read itself fails or the record read cannot be decoded (one of its
  numbers does not fit \<^verbatim>\<open>int\<close>), and, for a decoded record that passes the amount test
  (the balance changed between the write and the read), an error that wraps the
  conditional-check failure.
\<close>

theorem DebitarLimiteAtomica_rejected_write_diagnosis:
  "UpdateItem_debitar e tbl cid v = Inl ConditionalCheckFailedException \<Longrightarrow>
   fst (DebitarLimiteAtomica e tbl cid v) =
     (case GetItem_fault e of
        Some msg \<Rightarrow> Some ErrLimiteInsuficiente
      | None \<Rightarrow>
          (case reread e tbl cid of
             None \<Rightarrow> Some ErrClienteNaoEncontrado
           | Some item \<Rightarrow>
               if \<not> (fits_go_int (LimiteCredit item) \<and> fits_go_int (LimiteAtual item))
               then Some ErrLimiteInsuficiente
               else if LimiteAtual item < v then Some ErrLimiteInsuficiente
               else Some (ErrorfW (''operacao atomica falhou para cliente '' @ cid)
                            ConditionalCheckFailedException)))"
  by (auto simp: DebitarLimiteAtomica_def GetCliente_def GetItem_def UnmarshalMap_cliente_def
        itemToCliente_def split: option.splits sum.splits)

theorem DebitarLimiteAtomica_rejected_write_diagnosis_witness:
  "UpdateItem_debitar env_ok Map.empty ''C9'' 100 = Inl ConditionalCheckFailedException
   \<and> fst (DebitarLimiteAtomica env_ok Map.empty ''C9'' 100) = Some ErrClienteNaoEncontrado
   \<and> UpdateItem_debitar env_ok [''C1'' \<mapsto> cliente_C1 10] ''C1'' 9990 = Inl ConditionalCheckFailedException
   \<and> fst (DebitarLimiteAtomica env_ok [''C1'' \<mapsto> cliente_C1 10] ''C1'' 9990) = Some ErrLimiteInsuficiente"
proof -
  have a: "UpdateItem_debitar env_ok Map.empty ''C9'' 100 = Inl ConditionalCheckFailedException"
    by (simp add: UpdateItem_debitar_def env_ok_def)
  have b: "UpdateItem_debitar env_ok [''C1'' \<mapsto> cliente_C1 10] ''C1'' 9990 = Inl ConditionalCheckFailedException"
    by (simp add: UpdateItem_debitar_def env_ok_def cliente_C1_def)
  have e: "GetItem_fault env_ok = None" "reread env_ok = (\<lambda>tbl. tbl)"
    by (simp_all add: env_ok_def)
  from DebitarLimiteAtomica_rejected_write_diagnosis [OF a]
    DebitarLimiteAtomica_rejected_write_diagnosis [OF b] a b e
  show ?thesis
    by (simp add: cliente_C1_def fits_go_int_def)
qed

text \<open>
  Claim C4 as stated fails in the race case: the write for 9990 is rejected on a
  balance of 10, the read finds the balance 10000, and the error returned is not
  \<^verbatim>\<open>ErrLimiteInsuficiente\<close>.
\<close>

theorem race_case_returns_generic_error:
  "UpdateItem_debitar env_race [''C1'' \<mapsto> cliente_C1 10] ''C1'' 9990
     = Inl ConditionalCheckFailedException
   \<and> map_option LimiteAtual (reread env_race [''C1'' \<mapsto> cliente_C1 10] ''C1'') = Some 10000
   \<and> fst (DebitarLimiteAtomica env_race [''C1'' \<mapsto> cliente_C1 10] ''C1'' 9990)
     = Some (ErrorfW ''operacao atomica falhou para cliente C1'' ConditionalCheckFailedException)
   \<and> fst (DebitarLimiteAtomica env_race [''C1'' \<mapsto> cliente_C1 10] ''C1'' 9990)
     \<noteq> Some ErrLimiteInsuficiente"
  by (simp add: DebitarLimiteAtomica_def UpdateItem_debitar_def GetCliente_def GetItem_def
        UnmarshalMap_cliente_def fits_go_int_def itemToCliente_def env_race_def env_ok_def
        cliente_C1_def)

text \<open>
  When the record read back cannot be decoded, the error is \<^verbatim>\<open>ErrLimiteInsuficiente\<close>,
  although the balance read is above the amount.
\<close>

lemma undecodable_reread_is_insufficient:
  "fst (DebitarLimiteAtomica env_undecodable [''C1'' \<mapsto> cliente_C1 10] ''C1'' 9990)
     = Some ErrLimiteInsuficiente"
  by (simp add: DebitarLimiteAtomica_def UpdateItem_debitar_def GetCliente_def GetItem_def
        UnmarshalMap_cliente_def fits_go_int_def env_undecodable_def env_ok_def cliente_C1_def)

text \<open>
  Claim C6, as the code has it.  After a successful \<^verbatim>\<open>DebitarLimiteAtomica\<close> the
  balance is the old one less the amount and is not negative; it is within the ceiling
  when the amount is not negative and the old balance was within the ceiling.  After a
  successful \<^verbatim>\<open>UpdateLimite\<close> the balance is the value supplied, so the invariant holds
  exactly when that value lies between 0 and the ceiling.
\<close>

theorem ledger_mutations_and_invariant:
  "(DebitarLimiteAtomica e tbl cid v = (None, tbl') \<longrightarrow>
      (\<exists>old new. tbl cid = Some old \<and> tbl' cid = Some new
          \<and> LimiteAtual new = LimiteAtual old - v \<and> LimiteCredit new = LimiteCredit old
          \<and> 0 \<le> LimiteAtual new
          \<and> (0 \<le> v \<and> LimiteAtual old \<le> LimiteCredit old \<longrightarrow> limite_dentro_do_teto new)))
   \<and> (UpdateLimite e tbl cid n = (None, tbl'') \<longrightarrow>
      (\<exists>old new. tbl cid = Some old \<and> tbl'' cid = Some new
          \<and> LimiteAtual new = n \<and> LimiteCredit new = LimiteCredit old
          \<and> (limite_dentro_do_teto new \<longleftrightarrow> 0 \<le> n \<and> n \<le> LimiteCredit old)))"
  by (auto simp: DebitarLimiteAtomica_def UpdateItem_debitar_def UpdateLimite_def
        UpdateItem_limite_def limite_dentro_do_teto_def
        split: option.splits sum.splits if_splits)

theorem ledger_mutations_and_invariant_witness:
  "DebitarLimiteAtomica env_ok [''C1'' \<mapsto> cliente_C1 10000] ''C1'' 9990
     = (None, [''C1'' \<mapsto> (cliente_C1 10000)\<lparr>LimiteAtual := 10, UpdatedAt := 1700000000000\<rparr>])
   \<and> (0::int) \<le> 9990 \<and> LimiteAtual (cliente_C1 10000) \<le> LimiteCredit (cliente_C1 10000)
   \<and> limite_dentro_do_teto ((cliente_C1 10000)\<lparr>LimiteAtual := 10, UpdatedAt := 1700000000000\<rparr>)
   \<and> UpdateLimite env_ok [''C1'' \<mapsto> cliente_C1 10000] ''C1'' 500
     = (None, [''C1'' \<mapsto> (cliente_C1 10000)\<lparr>LimiteAtual := 500, UpdatedAt := 1700000000000\<rparr>])
   \<and> limite_dentro_do_teto ((cliente_C1 10000)\<lparr>LimiteAtual := 500, UpdatedAt := 1700000000000\<rparr>)"
proof -
  let ?a = "[''C1'' \<mapsto> (cliente_C1 10000)\<lparr>LimiteAtual := 10, UpdatedAt := 1700000000000\<rparr>]"
  let ?b = "[''C1'' \<mapsto> (cliente_C1 10000)\<lparr>LimiteAtual := 500, UpdatedAt := 1700000000000\<rparr>]"
  have d: "DebitarLimiteAtomica env_ok [''C1'' \<mapsto> cliente_C1 10000] ''C1'' 9990 = (None, ?a)"
    by (simp add: DebitarLimiteAtomica_def UpdateItem_debitar_def env_ok_def cliente_C1_def)
  have u: "UpdateLimite env_ok [''C1'' \<mapsto> cliente_C1 10000] ''C1'' 500 = (None, ?b)"
    by (simp add: UpdateLimite_def UpdateItem_limite_def env_ok_def cliente_C1_def)
  have k: "LimiteAtual (cliente_C1 10000) \<le> LimiteCredit (cliente_C1 10000)"
    "LimiteCredit (cliente_C1 10000) = 10000"
    by (simp_all add: cliente_C1_def)
  from ledger_mutations_and_invariant [of env_ok "[''C1'' \<mapsto> cliente_C1 10000]" "''C1''" 9990 ?a 500 ?b] d u k
  show ?thesis by simp
qed

text \<open>
  Claim C6 as stated fails: \<^verbatim>\<open>UpdateLimite\<close> with \<open>- 1\<close> succeeds and leaves a negative
  balance, and a debit of \<open>- 50\<close> succeeds and leaves the balance above the ceiling.
\<close>

theorem UpdateLimite_breaks_invariant:
  "fst (UpdateLimite env_ok [''C1'' \<mapsto> cliente_C1 10000] ''C1'' (- 1)) = None
   \<and> map_option limite_dentro_do_teto
        (snd (UpdateLimite env_ok [''C1'' \<mapsto> cliente_C1 10000] ''C1'' (- 1)) ''C1'') = Some False
   \<and> limite_dentro_do_teto (cliente_C1 10000)
   \<and> fst (DebitarLimiteAtomica env_ok [''C1'' \<mapsto> cliente_C1 10000] ''C1'' (- 50)) = None
   \<and> map_option limite_dentro_do_teto
        (snd (DebitarLimiteAtomica env_ok [''C1'' \<mapsto> cliente_C1 10000] ''C1'' (- 50)) ''C1'') = Some False"
  by code_simp

section \<open>The Orchestrator\<close>

lemma observe_tables [simp]:
  "clientes (observe x w) = clientes w" "transacoes (observe x w) = transacoes w"
  by (simp_all add: observe_def)

lemma publicarEvento_tables [simp]:
  "clientes (publicarEvento e w t) = clientes w"
  "transacoes (publicarEvento e w t) = transacoes w"
  by (simp_all add: publicarEvento_def Let_def split: option.splits)

lemma publicarEventoRejeicao_tables [simp]:
  "clientes (publicarEventoRejeicao e w t m) = clientes w"
  "transacoes (publicarEventoRejeicao e w t m) = transacoes w"
  by (simp_all add: publicarEventoRejeicao_def Let_def split: option.splits)

lemma validarTransacao_result:
  "fst (validarTransacao w t) = Valida t"
  "clientes (snd (validarTransacao w t)) = clientes w"
  "transacoes (snd (validarTransacao w t)) = transacoes w"
  by (simp_all add: validarTransacao_def split: option.splits)

lemma processarLimite_result:
  "fst (processarLimite e w t) =
     fst (DebitarLimiteAtomica e (clientes w) (ClienteID t) (valorCentavos t))"
  "clientes (snd (processarLimite e w t)) =
     snd (DebitarLimiteAtomica e (clientes w) (ClienteID t) (valorCentavos t))"
  "transacoes (snd (processarLimite e w t)) = transacoes w"
  by (simp_all add: processarLimite_def split: prod.splits option.splits)

lemma rejeitarTransacao_result:
  "fst (rejeitarTransacao e w t m) = Some m"
  "fst (snd (rejeitarTransacao e w t m)) = Rejeitar t"
  "clientes (snd (snd (rejeitarTransacao e w t m))) = clientes w"
  "transacoes (snd (snd (rejeitarTransacao e w t m))) = snd (Save e (transacoes w) (Rejeitar t))"
  by (auto simp: rejeitarTransacao_def Let_def Save_def split: prod.splits option.splits sum.splits)

lemma aprovarTransacao_result:
  "fst (aprovarTransacao e w t) = fst (Save e (transacoes w) (Aprovar t))"
  "fst (snd (aprovarTransacao e w t)) = Aprovar t"
  "clientes (snd (snd (aprovarTransacao e w t))) = clientes w"
  "transacoes (snd (snd (aprovarTransacao e w t))) = snd (Save e (transacoes w) (Aprovar t))"
  by (auto simp: aprovarTransacao_def Let_def Save_def split: prod.splits option.splits sum.splits)

lemma AutorizarTransacao_unfold:
  "AutorizarTransacao e w t =
     (case Valida t of
        Some err \<Rightarrow> rejeitarTransacao e (snd (validarTransacao w t)) t err
      | None \<Rightarrow>
          (case fst (DebitarLimiteAtomica e (clientes w) (ClienteID t) (valorCentavos t)) of
             Some err \<Rightarrow> rejeitarTransacao e (snd (processarLimite e (snd (validarTransacao w t)) t)) t err
           | None \<Rightarrow> aprovarTransacao e (snd (processarLimite e (snd (validarTransacao w t)) t)) t))"
proof -
  obtain a w1 where v: "validarTransacao w t = (a, w1)"
    by (cases "validarTransacao w t")
  obtain b w2 where p: "processarLimite e w1 t = (b, w2)"
    by (cases "processarLimite e w1 t")
  have a: "a = Valida t"
    using v validarTransacao_result(1) [of w t] by simp
  have c: "clientes w1 = clientes w"
    using v validarTransacao_result(2) [of w t] by simp
  have b: "b = fst (DebitarLimiteAtomica e (clientes w) (ClienteID t) (valorCentavos t))"
    using p processarLimite_result(1) [of e w1 t] c by simp
  show ?thesis
    using a b by (simp add: AutorizarTransacao_def v p split: option.splits)
qed

lemma AutorizarTransacao_tables:
  "Valida t = Some err \<Longrightarrow>
     fst (AutorizarTransacao e w t) = Some err
     \<and> fst (snd (AutorizarTransacao e w t)) = Rejeitar t
     \<and> clientes (snd (snd (AutorizarTransacao e w t))) = clientes w
     \<and> transacoes (snd (snd (AutorizarTransacao e w t))) = snd (Save e (transacoes w) (Rejeitar t))"
  "Valida t = None \<Longrightarrow>
   fst (DebitarLimiteAtomica e (clientes w) (ClienteID t) (valorCentavos t)) = Some err \<Longrightarrow>
     fst (AutorizarTransacao e w t) = Some err
     \<and> fst (snd (AutorizarTransacao e w t)) = Rejeitar t
     \<and> clientes (snd (snd (AutorizarTransacao e w t))) =
         snd (DebitarLimiteAtomica e (clientes w) (ClienteID t) (valorCentavos t))
     \<and> transacoes (snd (snd (AutorizarTransacao e w t))) = snd (Save e (transacoes w) (Rejeitar t))"
  "Valida t = None \<Longrightarrow>
   fst (DebitarLimiteAtomica e (clientes w) (ClienteID t) (valorCentavos t)) = None \<Longrightarrow>
     fst (AutorizarTransacao e w t) = fst (Save e (transacoes w) (Aprovar t))
     \<and> fst (snd (AutorizarTransacao e w t)) = Aprovar t
     \<and> clientes (snd (snd (AutorizarTransacao e w t))) =
         snd (DebitarLimiteAtomica e (clientes w) (ClienteID t) (valorCentavos t))
     \<and> transacoes (snd (snd (AutorizarTransacao e w t))) = snd (Save e (transacoes w) (Aprovar t))"
  by (simp_all add: AutorizarTransacao_unfold rejeitarTransacao_result aprovarTransacao_result
        processarLimite_result validarTransacao_result)

lemma rejeitarTransacao_publishes:
  "CallPublishTransacaoRejeitada (ToEvento (Rejeitar t))
     \<in> set (observed (snd (snd (rejeitarTransacao e w t m))))"
  by (simp add: rejeitarTransacao_def publicarEventoRejeicao_def observe_def Let_def
        split: prod.splits option.splits)

lemma Save_fresh:
  "PutItem_fault e = None \<Longrightarrow> tbl (ID t) = None \<Longrightarrow>
     \<exists>item. snd (Save e tbl t) (ID t) = Some item \<and> ti_Status item = Status t"
  by (simp add: Save_def PutItem_transacao_def Let_def)

lemma env_publisher_irrelevant:
  "DebitarLimiteAtomica (e\<lparr>PublishTransacaoAprovada := pa, PublishTransacaoRejeitada := pr\<rparr>) =
     DebitarLimiteAtomica e"
  "Save (e\<lparr>PublishTransacaoAprovada := pa, PublishTransacaoRejeitada := pr\<rparr>) = Save e"
  by (auto simp: fun_eq_iff DebitarLimiteAtomica_def UpdateItem_debitar_def GetCliente_def GetItem_def
        Save_def PutItem_transacao_def Let_def split: option.splits sum.splits)

lemma AutorizarTransacao_outcome:
  "(fst (AutorizarTransacao e w t), fst (snd (AutorizarTransacao e w t)),
    clientes (snd (snd (AutorizarTransacao e w t))), transacoes (snd (snd (AutorizarTransacao e w t)))) =
   (case Valida t of
      Some err \<Rightarrow> (Some err, Rejeitar t, clientes w, snd (Save e (transacoes w) (Rejeitar t)))
    | None \<Rightarrow>
       (case fst (DebitarLimiteAtomica e (clientes w) (ClienteID t) (valorCentavos t)) of
          Some err \<Rightarrow> (Some err, Rejeitar t,
                        snd (DebitarLimiteAtomica e (clientes w) (ClienteID t) (valorCentavos t)),
                        snd (Save e (transacoes w) (Rejeitar t)))
        | None \<Rightarrow> (fst (Save e (transacoes w) (Aprovar t)), Aprovar t,
                    snd (DebitarLimiteAtomica e (clientes w) (ClienteID t) (valorCentavos t)),
                    snd (Save e (transacoes w) (Aprovar t)))))"
proof (cases "Valida t")
  case None
  then show ?thesis
    by (cases "fst (DebitarLimiteAtomica e (clientes w) (ClienteID t) (valorCentavos t))")
       (simp_all add: AutorizarTransacao_tables)
next
  case (Some err)
  then show ?thesis by (simp add: AutorizarTransacao_tables)
qed

text \<open>
  Claim C2.  When \<^verbatim>\<open>AutorizarTransacao\<close> returns \<^verbatim>\<open>nil\<close>, the debit of this transaction
  succeeded: \<^verbatim>\<open>DebitarLimiteAtomica\<close> returned \<^verbatim>\<open>nil\<close> for its customer and its amount in
  centavos, and the table of the customers afterwards is the old one with the
  customer's balance lowered by that amount.  The transaction had passed validation and
  is marked \<^verbatim>\<open>APROVADA\<close>.
\<close>

theorem AutorizarTransacao_success_implies_debit:
  assumes "AutorizarTransacao e w t = (None, t', w')"
  shows "DebitarLimiteAtomica e (clientes w) (ClienteID t) (valorCentavos t) = (None, clientes w')
       \<and> (\<exists>item. clientes w (ClienteID t) = Some item \<and> valorCentavos t \<le> LimiteAtual item
             \<and> clientes w' = (clientes w)(ClienteID t \<mapsto>
                   item\<lparr>LimiteAtual := LimiteAtual item - valorCentavos t,
                        UpdatedAt := currentTimeMillis e\<rparr>))
       \<and> Valida t = None \<and> Status t' = StatusAprovada"
proof -
  let ?d = "DebitarLimiteAtomica e (clientes w) (ClienteID t) (valorCentavos t)"
  let ?w2 = "snd (processarLimite e (snd (validarTransacao w t)) t)"
  from assms have f: "fst (AutorizarTransacao e w t) = None" by simp
  have val: "Valida t = None"
    using f by (cases "Valida t") (simp_all add: AutorizarTransacao_unfold rejeitarTransacao_result)
  have deb: "fst ?d = None"
    using f val by (cases "fst ?d") (simp_all add: AutorizarTransacao_unfold rejeitarTransacao_result)
  have eq: "AutorizarTransacao e w t = aprovarTransacao e ?w2 t"
    using val deb by (simp add: AutorizarTransacao_unfold)
  have t': "t' = Aprovar t"
    using assms eq aprovarTransacao_result(2) [of e ?w2 t] by simp
  have cw: "clientes w' = snd ?d"
    using assms eq aprovarTransacao_result(3) [of e ?w2 t]
    by (simp add: processarLimite_result validarTransacao_result)
  have d: "?d = (None, clientes w')"
    using deb cw by (metis prod.collapse)
  have ex: "\<exists>item. clientes w (ClienteID t) = Some item \<and> valorCentavos t \<le> LimiteAtual item
             \<and> clientes w' = (clientes w)(ClienteID t \<mapsto>
                   item\<lparr>LimiteAtual := LimiteAtual item - valorCentavos t,
                        UpdatedAt := currentTimeMillis e\<rparr>)"
    using d
    by (auto simp: DebitarLimiteAtomica_def UpdateItem_debitar_def
             split: option.splits sum.splits if_splits)
  show ?thesis using d ex val t' by (simp add: Aprovar_def)
qed

theorem AutorizarTransacao_success_implies_debit_witness:
  "fst (AutorizarTransacao env_ok (world_C1 10000) (transacao_C1 valor_99_90)) = None
   \<and> fst (DebitarLimiteAtomica env_ok (clientes (world_C1 10000)) ''C1'' 9990) = None
   \<and> map_option LimiteAtual
        (clientes (snd (snd (AutorizarTransacao env_ok (world_C1 10000)
                                (transacao_C1 valor_99_90)))) ''C1'') = Some 10
   \<and> Status (fst (snd (AutorizarTransacao env_ok (world_C1 10000) (transacao_C1 valor_99_90))))
       = StatusAprovada"
proof -
  let ?r = "AutorizarTransacao env_ok (world_C1 10000) (transacao_C1 valor_99_90)"
  have ok: "fst ?r = None"
    by code_simp
  have r: "?r = (None, fst (snd ?r), snd (snd ?r))"
    using ok by (metis prod.collapse)
  have vc: "valorCentavos (transacao_C1 valor_99_90) = 9990"
    by code_simp
  have cid: "ClienteID (transacao_C1 valor_99_90) = ''C1''"
    by (simp add: transacao_C1_def NewTransacao_def)
  have bal: "LimiteAtual (cliente_C1 10000) = 10000" "clientes (world_C1 10000) ''C1'' = Some (cliente_C1 10000)"
    by (simp_all add: cliente_C1_def world_C1_def)
  from AutorizarTransacao_success_implies_debit [OF r] ok vc cid bal show ?thesis
    by auto
qed

text \<open>
  Claim C3, as the code has it.  When the debit fails with an error that is neither
  \<^verbatim>\<open>ErrLimiteInsuficiente\<close> nor \<^verbatim>\<open>ErrClienteNaoEncontrado\<close>, \<^verbatim>\<open>AutorizarTransacao\<close> returns
  that error unchanged (the handler reports it as \<^verbatim>\<open>internal_error\<close>) and leaves the
  balance as it was; but it marks the transaction \<^verbatim>\<open>REJEITADA\<close> and saves it: the log
  afterwards is what \<^verbatim>\<open>Save\<close> of the rejected transaction gives, and holds the
  transaction with status \<^verbatim>\<open>REJEITADA\<close> whenever the store of the log answers and the id
  is new.  It also hands the event of the rejected transaction, of type
  \<^verbatim>\<open>TRANSACAO_REJEITADA\<close>, to \<^verbatim>\<open>PublishTransacaoRejeitada\<close>.
\<close>

theorem AutorizarTransacao_store_failure_is_rejection:
  assumes "Valida t = None"
    and "fst (DebitarLimiteAtomica e (clientes w) (ClienteID t) (valorCentavos t)) = Some err"
    and "\<not> errors_Is err ErrLimiteInsuficiente" and "\<not> errors_Is err ErrClienteNaoEncontrado"
  shows "fst (AutorizarTransacao e w t) = Some err
       \<and> snd (categorizeError err) = ''internal_error''
       \<and> Status (fst (snd (AutorizarTransacao e w t))) = StatusRejeitada
       \<and> transacoes (snd (snd (AutorizarTransacao e w t))) = snd (Save e (transacoes w) (Rejeitar t))
       \<and> (PutItem_fault e = None \<and> transacoes w (ID t) = None \<longrightarrow>
            (\<exists>item. transacoes (snd (snd (AutorizarTransacao e w t))) (ID t) = Some item
                    \<and> ti_Status item = StatusRejeitada))
       \<and> clientes (snd (snd (AutorizarTransacao e w t))) = clientes w
       \<and> CallPublishTransacaoRejeitada (ToEvento (Rejeitar t))
             \<in> set (observed (snd (snd (AutorizarTransacao e w t))))
       \<and> Evento (ToEvento (Rejeitar t)) = EventoTransacaoRejeitada"
proof -
  note r = AutorizarTransacao_tables(2) [OF assms(1,2)]
  have pub: "CallPublishTransacaoRejeitada (ToEvento (Rejeitar t))
               \<in> set (observed (snd (snd (AutorizarTransacao e w t))))"
    using assms(1,2) by (simp add: AutorizarTransacao_unfold rejeitarTransacao_publishes)
  have ev: "Evento (ToEvento (Rejeitar t)) = EventoTransacaoRejeitada"
    by (simp add: ToEvento_def Rejeitar_def StatusRejeitada_def StatusAprovada_def)
  have cat: "snd (categorizeError err) = ''internal_error''"
    using Debitar_error_forms [OF assms(2)] assms(3,4)
    by (auto simp: categorizeError_def)
  have log: "PutItem_fault e = None \<and> transacoes w (ID t) = None \<longrightarrow>
            (\<exists>item. snd (Save e (transacoes w) (Rejeitar t)) (ID t) = Some item
                    \<and> ti_Status item = StatusRejeitada)"
    using Save_fresh [of e "transacoes w" "Rejeitar t"] by (simp add: Rejeitar_def)
  show ?thesis
    using r cat log pub ev Debitar_failure_keeps_table [OF assms(2)] by (simp add: Rejeitar_def)
qed

theorem AutorizarTransacao_store_failure_is_rejection_witness:
  "Valida (transacao_C1 valor_99_90) = None
   \<and> fst (DebitarLimiteAtomica env_store_down (clientes (world_C1 10000))
            (ClienteID (transacao_C1 valor_99_90)) (valorCentavos (transacao_C1 valor_99_90)))
       = Some (ErrorfW ''erro ao debitar limite do cliente C1'' (ServiceFailure ''ServiceUnavailable''))
   \<and> \<not> errors_Is (ErrorfW ''erro ao debitar limite do cliente C1'' (ServiceFailure ''ServiceUnavailable''))
          ErrLimiteInsuficiente
   \<and> \<not> errors_Is (ErrorfW ''erro ao debitar limite do cliente C1'' (ServiceFailure ''ServiceUnavailable''))
          ErrClienteNaoEncontrado
   \<and> fst (AutorizarTransacao env_store_down (world_C1 10000) (transacao_C1 valor_99_90))
       = Some (ErrorfW ''erro ao debitar limite do cliente C1'' (ServiceFailure ''ServiceUnavailable''))
   \<and> Status (fst (snd (AutorizarTransacao env_store_down (world_C1 10000) (transacao_C1 valor_99_90))))
       = StatusRejeitada
   \<and> (\<exists>item. transacoes (snd (snd (AutorizarTransacao env_store_down (world_C1 10000)
                                       (transacao_C1 valor_99_90)))) ''tx-1'' = Some item
             \<and> ti_Status item = StatusRejeitada)
   \<and> clientes (snd (snd (AutorizarTransacao env_store_down (world_C1 10000) (transacao_C1 valor_99_90))))
       = clientes (world_C1 10000)
   \<and> CallPublishTransacaoRejeitada (ToEvento (Rejeitar (transacao_C1 valor_99_90)))
         \<in> set (observed (snd (snd (AutorizarTransacao env_store_down (world_C1 10000)
                                        (transacao_C1 valor_99_90)))))
   \<and> Evento (ToEvento (Rejeitar (transacao_C1 valor_99_90))) = EventoTransacaoRejeitada"
proof -
  let ?err = "ErrorfW ''erro ao debitar limite do cliente C1'' (ServiceFailure ''ServiceUnavailable'')"
  let ?t = "transacao_C1 valor_99_90"
  have v: "Valida ?t = None"
    by code_simp
  have d: "fst (DebitarLimiteAtomica env_store_down (clientes (world_C1 10000))
            (ClienteID ?t) (valorCentavos ?t)) = Some ?err"
    by (simp add: DebitarLimiteAtomica_def UpdateItem_debitar_def env_store_down_def env_ok_def
          transacao_C1_def NewTransacao_def)
  have n1: "\<not> errors_Is ?err ErrLimiteInsuficiente" by simp
  have n2: "\<not> errors_Is ?err ErrClienteNaoEncontrado" by simp
  have p: "PutItem_fault env_store_down = None" "transacoes (world_C1 10000) (ID ?t) = None"
    "ID ?t = ''tx-1''"
    by (simp_all add: env_store_down_def env_ok_def world_C1_def transacao_C1_def NewTransacao_def)
  note th = AutorizarTransacao_store_failure_is_rejection [OF v d n1 n2]
  from th p(1,2)
  have "\<exists>item. transacoes (snd (snd (AutorizarTransacao env_store_down (world_C1 10000) ?t))) (ID ?t)
                 = Some item \<and> ti_Status item = StatusRejeitada"
    by blast
  then have ex: "\<exists>item. transacoes (snd (snd (AutorizarTransacao env_store_down (world_C1 10000) ?t))) ''tx-1''
                 = Some item \<and> ti_Status item = StatusRejeitada"
    by (simp only: p(3))
  from th v d n1 n2 ex show ?thesis
    by blast
qed

text \<open>
  Claim C3 as stated fails: with the store of the customers out of service, the
  transaction comes back marked \<^verbatim>\<open>REJEITADA\<close> and is in the log with that status.
\<close>

theorem store_failure_marks_rejected_and_logs:
  "fst (AutorizarTransacao env_store_down (world_C1 10000) (transacao_C1 valor_99_90))
     = Some (ErrorfW ''erro ao debitar limite do cliente C1'' (ServiceFailure ''ServiceUnavailable''))
   \<and> Status (fst (snd (AutorizarTransacao env_store_down (world_C1 10000) (transacao_C1 valor_99_90))))
     = StatusRejeitada
   \<and> map_option ti_Status
       (transacoes (snd (snd (AutorizarTransacao env_store_down (world_C1 10000)
                                 (transacao_C1 valor_99_90)))) ''tx-1'')
     = Some StatusRejeitada"
  by code_simp

text \<open>
  Claim C5, evaluated on a log that already holds the transaction id.  \<^verbatim>\<open>Save\<close> returns
  the error built by \<^verbatim>\<open>fmt.Errorf\<close>, which is not \<^verbatim>\<open>ErrTransacaoDuplicada\<close>, and
  \<^verbatim>\<open>AutorizarTransacao\<close> returns it to the caller (\<^verbatim>\<open>internal_error\<close> for the handler)
  after the balance went from 10000 to 10.
\<close>

theorem duplicate_save_is_generic_and_surfaced:
  "fst (Save env_ok (transacoes (world_C1_replay 10000)) (Aprovar (transacao_C1 valor_99_90)))
     = Some (Errorf ''transacao tx-1 ja existe'')
   \<and> \<not> errors_Is (Errorf ''transacao tx-1 ja existe'') ErrTransacaoDuplicada
   \<and> fst (AutorizarTransacao env_ok (world_C1_replay 10000) (transacao_C1 valor_99_90))
     = Some (Errorf ''transacao tx-1 ja existe'')
   \<and> categorizeError (Errorf ''transacao tx-1 ja existe'') = (500, ''internal_error'')
   \<and> map_option LimiteAtual
       (clientes (snd (snd (AutorizarTransacao env_ok (world_C1_replay 10000)
                               (transacao_C1 valor_99_90)))) ''C1'')
     = Some 10"
  by code_simp

text \<open>
  Claim C8, evaluated at the amount 0.29.  The binary64 value nearest to 0.29 passes
  validation; its product with 100 rounds to a value just below 29, the conversion to
  \<^verbatim>\<open>int\<close> drops the fraction, and the debit is 28 centavos: the balance goes from 10000
  to 9972.
\<close>

theorem valorCentavos_truncates_0_29:
  "is_float64 valor_0_29
   \<and> \<bar>f64_val valor_0_29 - 29 / 100\<bar> < 1 / 2 ^ 55
   \<and> Valida (transacao_C1 valor_0_29) = None
   \<and> valorCentavos (transacao_C1 valor_0_29) = 28
   \<and> of_int (valorCentavos (transacao_C1 valor_0_29)) < f64_val (Valor (transacao_C1 valor_0_29)) * 100
   \<and> fst (AutorizarTransacao env_ok (world_C1 10000) (transacao_C1 valor_0_29)) = None
   \<and> map_option LimiteAtual
       (clientes (snd (snd (AutorizarTransacao env_ok (world_C1 10000)
                               (transacao_C1 valor_0_29)))) ''C1'')
     = Some 9972"
  by code_simp

text \<open>
  The amount of the specification's scenario: 99.90 is debited as 9990 centavos.
\<close>

lemma valorCentavos_99_90: "valorCentavos (transacao_C1 valor_99_90) = 9990"
  by code_simp

text \<open>
  Claim C9.  Whatever the two methods of the publisher return, \<^verbatim>\<open>AutorizarTransacao\<close>
  returns the same error, leaves the transaction with the same status, and leaves the
  same log and the same table of customers.
\<close>

theorem publish_outcome_irrelevant:
  "fst (AutorizarTransacao (e\<lparr>PublishTransacaoAprovada := pa, PublishTransacaoRejeitada := pr\<rparr>) w t)
     = fst (AutorizarTransacao e w t)
   \<and> fst (snd (AutorizarTransacao (e\<lparr>PublishTransacaoAprovada := pa, PublishTransacaoRejeitada := pr\<rparr>) w t))
     = fst (snd (AutorizarTransacao e w t))
   \<and> transacoes (snd (snd (AutorizarTransacao
        (e\<lparr>PublishTransacaoAprovada := pa, PublishTransacaoRejeitada := pr\<rparr>) w t)))
     = transacoes (snd (snd (AutorizarTransacao e w t)))
   \<and> clientes (snd (snd (AutorizarTransacao
        (e\<lparr>PublishTransacaoAprovada := pa, PublishTransacaoRejeitada := pr\<rparr>) w t)))
     = clientes (snd (snd (AutorizarTransacao e w t)))"
proof -
  let ?e' = "e\<lparr>PublishTransacaoAprovada := pa, PublishTransacaoRejeitada := pr\<rparr>"
  have "(fst (AutorizarTransacao ?e' w t), fst (snd (AutorizarTransacao ?e' w t)),
         clientes (snd (snd (AutorizarTransacao ?e' w t))),
         transacoes (snd (snd (AutorizarTransacao ?e' w t)))) =
        (fst (AutorizarTransacao e w t), fst (snd (AutorizarTransacao e w t)),
         clientes (snd (snd (AutorizarTransacao e w t))),
         transacoes (snd (snd (AutorizarTransacao e w t))))"
    unfolding AutorizarTransacao_outcome env_publisher_irrelevant ..
  then show ?thesis by simp
qed

end
